theory Spec2Isabelle
  imports
    Complex_Main
    "HOL-Library.Char_ord"
    "HOL-Library.List_Lexorder"
    "HOL-Library.Product_Lexorder"
begin

section \<open>Values of the data frames\<close>

text \<open>
  A numeric cell of a pandas frame is a float64 (or an int64 that true division turns
  into one). The model keeps the four kinds of value the code distinguishes: a finite
  number, the two infinities and not-a-number. Finite numbers are exact reals: the
  rounding, overflow and underflow of float64 operations, the sign of a zero and the
  wrap-around of int64 sums are not modelled. Properties whose truth depends on them are
  stated only for cells on which every operation involved is exact (see
  \<open>exact_cells\<close> below). A missing numeric cell of the input is \<open>None\<close> (pandas
  stores it as NaN and every reduction used here skips it).
\<close>

datatype fnum = Fin real | PInf | NInf | NaN

text \<open>Subtraction of two float cells (IEEE 754 on the special values).\<close>

fun fsub :: "fnum \<Rightarrow> fnum \<Rightarrow> fnum" where
  "fsub (Fin a) (Fin b) = Fin (a - b)"
| "fsub NaN _ = NaN"
| "fsub _ NaN = NaN"
| "fsub PInf PInf = NaN"
| "fsub NInf NInf = NaN"
| "fsub PInf _ = PInf"
| "fsub NInf _ = NInf"
| "fsub (Fin a) PInf = NInf"
| "fsub (Fin a) NInf = PInf"

text \<open>Addition of two float cells.\<close>

fun fadd :: "fnum \<Rightarrow> fnum \<Rightarrow> fnum" where
  "fadd (Fin a) (Fin b) = Fin (a + b)"
| "fadd NaN _ = NaN"
| "fadd _ NaN = NaN"
| "fadd PInf NInf = NaN"
| "fadd NInf PInf = NaN"
| "fadd PInf _ = PInf"
| "fadd NInf _ = NInf"
| "fadd (Fin a) PInf = PInf"
| "fadd (Fin a) NInf = NInf"

text \<open>
  True division of numpy: no exception on a zero denominator. \<open>x / 0\<close> is \<open>+inf\<close>
  for \<open>x > 0\<close>, \<open>-inf\<close> for \<open>x < 0\<close> and NaN for \<open>x = 0\<close>; a zero
  denominator is taken as \<open>+0.0\<close>. A quotient of finite numbers by a non-zero
  denominator is the exact quotient: it neither overflows to an infinity nor underflows
  to zero here.
\<close>

fun fdiv :: "fnum \<Rightarrow> fnum \<Rightarrow> fnum" where
  "fdiv NaN _ = NaN"
| "fdiv _ NaN = NaN"
| "fdiv (Fin a) (Fin b) =
     (if b = 0 then (if a = 0 then NaN else if 0 < a then PInf else NInf)
      else Fin (a / b))"
| "fdiv (Fin a) PInf = Fin 0"
| "fdiv (Fin a) NInf = Fin 0"
| "fdiv PInf (Fin b) = (if 0 \<le> b then PInf else NInf)"
| "fdiv NInf (Fin b) = (if 0 \<le> b then NInf else PInf)"
| "fdiv PInf _ = NaN"
| "fdiv NInf _ = NaN"

fun fabs :: "fnum \<Rightarrow> fnum" where
  "fabs (Fin a) = Fin \<bar>a\<bar>"
| "fabs PInf = PInf"
| "fabs NInf = PInf"
| "fabs NaN = NaN"

text \<open>The comparison \<open>x > c\<close> against a finite constant: False on NaN.\<close>

fun fgt :: "fnum \<Rightarrow> real \<Rightarrow> bool" where
  "fgt (Fin a) c = (c < a)"
| "fgt PInf c = True"
| "fgt NInf c = False"
| "fgt NaN c = False"

fun is_finite :: "fnum \<Rightarrow> bool" where
  "is_finite (Fin a) = True"
| "is_finite _ = False"

section \<open>The joined record set\<close>

text \<open>
  One row of the frame returned by \<open>DataLoader.get_data\<close>, with the columns of its
  SELECT. Every cell may be missing (\<open>None\<close>): \<open>run_checks\<close> counts such cells.
  Integer counts (impressions, clicks, orders) are embedded in the reals.
\<close>

record row =
  date :: "string option"
  campaign_id :: "int option"
  device_type :: "string option"
  channel :: "string option"
  clicks :: "real option"
  impressions :: "real option"
  orders :: "real option"
  revenue :: "real option"
  commission_paid :: "real option"
  partner_name :: "string option"
  vertical :: "string option"
  campaign_name :: "string option"
  landing_page_variant :: "string option"

text \<open>
  \<open>Series.sum()\<close> of a column: missing cells are skipped, the empty sum is 0. The
  sum is the exact sum: the order in which pandas adds the cells does not matter here.
\<close>

definition col_sum :: "(row \<Rightarrow> real option) \<Rightarrow> row list \<Rightarrow> real" where
  "col_sum f df = sum_list (List.map_filter f df)"

section \<open>KPIEngine.calculate_kpis\<close>

record metrics =
  sum_impressions :: real
  sum_clicks :: real
  sum_orders :: real
  sum_revenue :: real
  sum_commission_paid :: real

record kpis =
  CTR :: real
  Conversion_Rate :: real
  EPC :: real
  AOV :: real
  ROI :: real

definition safe_div :: "real \<Rightarrow> real \<Rightarrow> real" where
  "safe_div a b = (if b > 0 then a / b else 0)"

definition agg_sum :: "row list \<Rightarrow> metrics" where
  "agg_sum df =
     \<lparr> sum_impressions = col_sum impressions df,
       sum_clicks = col_sum clicks df,
       sum_orders = col_sum orders df,
       sum_revenue = col_sum revenue df,
       sum_commission_paid = col_sum commission_paid df \<rparr>"

definition calculate_kpis :: "row list \<Rightarrow> kpis \<times> metrics" where
  "calculate_kpis df =
     (let m = agg_sum df;
          k = \<lparr> CTR = safe_div (sum_clicks m) (sum_impressions m),
                Conversion_Rate = safe_div (sum_orders m) (sum_clicks m),
                EPC = safe_div (sum_revenue m) (sum_clicks m),
                AOV = safe_div (sum_revenue m) (sum_orders m),
                ROI = safe_div (sum_revenue m - sum_commission_paid m)
                        (sum_commission_paid m) \<rparr>
      in (k, m))"

section \<open>Grouped frames\<close>

text \<open>
  The frame a grouped aggregation returns: named columns in order, each a column of
  strings (the group keys) or of floats.
\<close>

datatype column = StrCol "string list" | NumCol "fnum list"

type_synonym frame = "(string \<times> column) list"

text \<open>
  \<open>grouped[name]\<close> read as a numeric series. All names read by the program are
  columns written just before, so the KeyError of pandas cannot arise; the model
  returns the empty series there.
\<close>

definition num_col :: "frame \<Rightarrow> string \<Rightarrow> fnum list" where
  "num_col fr name = (case map_of fr name of Some (NumCol xs) \<Rightarrow> xs | _ \<Rightarrow> [])"

definition str_col :: "frame \<Rightarrow> string \<Rightarrow> string list" where
  "str_col fr name = (case map_of fr name of Some (StrCol xs) \<Rightarrow> xs | _ \<Rightarrow> [])"

text \<open>\<open>grouped[name] = series\<close>: replaces the column in place, or appends it.\<close>

fun set_col :: "string \<Rightarrow> column \<Rightarrow> frame \<Rightarrow> frame" where
  "set_col name c [] = [(name, c)]"
| "set_col name c ((n, c') # fr) =
     (if n = name then (name, c) # fr else (n, c') # set_col name c fr)"

text \<open>\<open>fillna(0)\<close>: replaces NaN by 0 in every column; infinities are not missing values.\<close>

fun fillna0 :: "fnum \<Rightarrow> fnum" where
  "fillna0 NaN = Fin 0"
| "fillna0 x = x"

fun fillna_col :: "column \<Rightarrow> column" where
  "fillna_col (NumCol xs) = NumCol (map fillna0 xs)"
| "fillna_col (StrCol xs) = StrCol xs"

definition fillna :: "frame \<Rightarrow> frame" where
  "fillna fr = map (\<lambda>(n, c). (n, fillna_col c)) fr"

text \<open>
  \<open>df.groupby([k1, k2])\<close> with the defaults of pandas: rows with a missing key are
  dropped (\<open>dropna=True\<close>) and the groups come in ascending order of the key pair
  (\<open>sort=True\<close>).
\<close>

definition group_keys :: "(row \<Rightarrow> (string \<times> string) option) \<Rightarrow> row list \<Rightarrow> (string \<times> string) list" where
  "group_keys key df = sort (remdups (List.map_filter key df))"

definition group_rows :: "(row \<Rightarrow> (string \<times> string) option) \<Rightarrow> row list \<Rightarrow> string \<times> string \<Rightarrow> row list" where
  "group_rows key df k = filter (\<lambda>r. key r = Some k) df"

text \<open>\<open>.agg({...: 'sum'}).reset_index()\<close>: the two key columns, then the five sums.\<close>

definition groupby_agg :: "string \<Rightarrow> string \<Rightarrow> (row \<Rightarrow> (string \<times> string) option) \<Rightarrow> row list \<Rightarrow> frame" where
  "groupby_agg k1 k2 key df =
     (let ks = group_keys key df;
          agg = (\<lambda>f. NumCol (map (\<lambda>k. Fin (col_sum f (group_rows key df k))) ks))
      in [(k1, StrCol (map fst ks)),
          (k2, StrCol (map snd ks)),
          (''impressions'', agg impressions),
          (''clicks'', agg clicks),
          (''orders'', agg orders),
          (''revenue'', agg revenue),
          (''commission_paid'', agg commission_paid)])"

definition key2 :: "string option \<Rightarrow> string option \<Rightarrow> (string \<times> string) option" where
  "key2 a b = (case a of None \<Rightarrow> None | Some x \<Rightarrow> (case b of None \<Rightarrow> None | Some y \<Rightarrow> Some (x, y)))"

definition partner_key :: "row \<Rightarrow> (string \<times> string) option" where
  "partner_key r = key2 (partner_name r) (vertical r)"

definition campaign_key :: "row \<Rightarrow> (string \<times> string) option" where
  "campaign_key r = key2 (campaign_name r) (landing_page_variant r)"

text \<open>Element-wise series arithmetic.\<close>

definition div_cols :: "fnum list \<Rightarrow> fnum list \<Rightarrow> column" where
  "div_cols xs ys = NumCol (map2 fdiv xs ys)"

definition sub_cols :: "fnum list \<Rightarrow> fnum list \<Rightarrow> fnum list" where
  "sub_cols xs ys = map2 fsub xs ys"

section \<open>KPIEngine.get_partner_performance and get_campaign_performance\<close>

definition get_partner_performance :: "row list \<Rightarrow> frame" where
  "get_partner_performance df =
     (let grouped = groupby_agg ''partner_name'' ''vertical'' partner_key df;
          grouped = set_col ''CTR''
            (div_cols (num_col grouped ''clicks'') (num_col grouped ''impressions'')) grouped;
          grouped = set_col ''Conversion_Rate''
            (div_cols (num_col grouped ''orders'') (num_col grouped ''clicks'')) grouped;
          grouped = set_col ''EPC''
            (div_cols (num_col grouped ''revenue'') (num_col grouped ''clicks'')) grouped;
          grouped = set_col ''AOV''
            (div_cols (num_col grouped ''revenue'') (num_col grouped ''orders'')) grouped;
          grouped = set_col ''ROI''
            (div_cols (sub_cols (num_col grouped ''revenue'') (num_col grouped ''commission_paid''))
               (num_col grouped ''commission_paid'')) grouped
      in fillna grouped)"

definition get_campaign_performance :: "row list \<Rightarrow> frame" where
  "get_campaign_performance df =
     (let grouped = groupby_agg ''campaign_name'' ''landing_page_variant'' campaign_key df;
          grouped = set_col ''CTR''
            (div_cols (num_col grouped ''clicks'') (num_col grouped ''impressions'')) grouped;
          grouped = set_col ''Conversion_Rate''
            (div_cols (num_col grouped ''orders'') (num_col grouped ''clicks'')) grouped;
          grouped = set_col ''EPC''
            (div_cols (num_col grouped ''revenue'') (num_col grouped ''clicks'')) grouped;
          grouped = set_col ''ROI''
            (div_cols (sub_cols (num_col grouped ''revenue'') (num_col grouped ''commission_paid''))
               (num_col grouped ''commission_paid'')) grouped
      in fillna grouped)"

section \<open>DataQuality.run_checks\<close>

text \<open>Decimal rendering of a count inside an f-string.\<close>

definition digit_char :: "nat \<Rightarrow> char" where
  "digit_char d = ''0123456789'' ! d"

function str_nat :: "nat \<Rightarrow> string" where
  "str_nat n = (if n < 10 then [digit_char n] else str_nat (n div 10) @ [digit_char (n mod 10)])"
  by pat_completeness auto
termination
  by (relation "measure id") auto

declare str_nat.simps [simp del]

text \<open>Comparisons of nullable cells: a comparison with a missing value is False.\<close>

fun gt_cell :: "real option \<Rightarrow> real option \<Rightarrow> bool" where
  "gt_cell (Some a) (Some b) = (a > b)"
| "gt_cell _ _ = False"

fun lt0_cell :: "real option \<Rightarrow> bool" where
  "lt0_cell (Some a) = (a < 0)"
| "lt0_cell None = False"

fun gt0_cell :: "real option \<Rightarrow> bool" where
  "gt0_cell (Some a) = (a > 0)"
| "gt0_cell None = False"

definition isnull :: "'a option \<Rightarrow> nat" where
  "isnull c = (if c = None then 1 else 0)"

text \<open>\<open>df.isnull().sum().sum()\<close>: the number of missing cells of all columns.\<close>

definition row_nulls :: "row \<Rightarrow> nat" where
  "row_nulls r =
     isnull (date r) + isnull (campaign_id r) + isnull (device_type r) + isnull (channel r) +
     isnull (clicks r) + isnull (impressions r) + isnull (orders r) + isnull (revenue r) +
     isnull (commission_paid r) + isnull (partner_name r) + isnull (vertical r) +
     isnull (campaign_name r) + isnull (landing_page_variant r)"

definition null_count :: "row list \<Rightarrow> nat" where
  "null_count df = sum_list (map row_nulls df)"

text \<open>\<open>df[df['revenue'] > 0]['revenue']\<close>.\<close>

definition rev_data :: "row list \<Rightarrow> real list" where
  "rev_data df = List.map_filter revenue (filter (\<lambda>r. gt0_cell (revenue r)) df)"

definition mean :: "real list \<Rightarrow> real" where
  "mean xs = sum_list xs / real (length xs)"

text \<open>
  \<open>Series.std()\<close>: the sample standard deviation (ddof = 1), NaN on one value. Mean,
  squared deviations and root are exact, so equal values have deviation 0 and standard
  deviation 0 here; in float64 the rounded mean of equal values can differ from the
  value while the squared deviations underflow to 0.
\<close>

definition sq_dev :: "real list \<Rightarrow> real" where
  "sq_dev xs = sum_list (map (\<lambda>x. (x - mean xs)\<^sup>2) xs)"

definition std :: "real list \<Rightarrow> fnum" where
  "std xs =
     (if length xs < 2 then NaN
      else Fin (sqrt (sq_dev xs / real (length xs - 1))))"

definition z_scores :: "real list \<Rightarrow> fnum list" where
  "z_scores xs = map (\<lambda>x. fdiv (Fin (x - mean xs)) (std xs)) xs"

definition outliers :: "real list \<Rightarrow> bool list" where
  "outliers xs = map (\<lambda>z. fgt (fabs z) 3) (z_scores xs)"

definition count_true :: "bool list \<Rightarrow> nat" where
  "count_true bs = length (filter (\<lambda>b. b) bs)"

definition msg_invalid_ctr :: "nat \<Rightarrow> string" where
  "msg_invalid_ctr n = ''CRITICAL: Found '' @ str_nat n @ '' rows where Clicks > Impressions.''"

definition msg_neg_val :: "nat \<Rightarrow> string" where
  "msg_neg_val n = ''CRITICAL: Found '' @ str_nat n @ '' rows with negative Revenue or Commission.''"

definition msg_nulls :: "nat \<Rightarrow> string" where
  "msg_nulls n = ''WARNING: Found '' @ str_nat n @ '' missing values in dataset.''"

definition msg_outliers :: "nat \<Rightarrow> string" where
  "msg_outliers n = ''INFO: Detected '' @ str_nat n @ '' revenue outliers (>3 Std Dev).''"

definition msg_passed :: string where
  "msg_passed = ''PASSED: All data quality checks passed.''"

definition run_checks :: "row list \<Rightarrow> string list" where
  "run_checks df =
     (let issues = [];
          invalid_ctr = filter (\<lambda>r. gt_cell (clicks r) (impressions r)) df;
          issues = (if invalid_ctr \<noteq> [] then issues @ [msg_invalid_ctr (length invalid_ctr)]
                    else issues);
          neg_val = filter (\<lambda>r. lt0_cell (revenue r) \<or> lt0_cell (commission_paid r)) df;
          issues = (if neg_val \<noteq> [] then issues @ [msg_neg_val (length neg_val)] else issues);
          nulls = null_count df;
          issues = (if nulls > 0 then issues @ [msg_nulls nulls] else issues);
          rev = rev_data df;
          issues = (if rev \<noteq> [] then
                      (if count_true (outliers rev) > 0
                       then issues @ [msg_outliers (count_true (outliers rev))]
                       else issues)
                    else issues)
      in if issues = [] then [msg_passed] else issues)"

section \<open>Notions of the specification used to state the properties\<close>

text \<open>The total of a numeric column of a returned frame (\<open>frame[name].sum()\<close>).\<close>

definition fsum :: "fnum list \<Rightarrow> fnum" where
  "fsum xs = foldr fadd xs (Fin 0)"

text \<open>
  Cells on which float64 and int64 addition is exact: every value is an integer and the
  absolute values total less than \<open>2^53\<close>. Every partial sum, in any order, is then an
  integer of magnitude below \<open>2^53\<close>: no addition rounds, overflows or wraps.
\<close>

definition exact_cells :: "real list \<Rightarrow> bool" where
  "exact_cells vs \<longleftrightarrow>
     list_all (\<lambda>v. real_of_int \<lfloor>v\<rfloor> = v) vs \<and> sum_list (map abs vs) < 2 ^ 53"

definition exact_col :: "(row \<Rightarrow> real option) \<Rightarrow> row list \<Rightarrow> bool" where
  "exact_col f df = exact_cells (List.map_filter f df)"

text \<open>The key pairs of the rows of a grouped frame, in row order.\<close>

definition key_pairs :: "string \<Rightarrow> string \<Rightarrow> frame \<Rightarrow> (string \<times> string) list" where
  "key_pairs k1 k2 fr = zip (str_col fr k1) (str_col fr k2)"

text \<open>
  The ordering the specification words describe: each distinct value once, in the
  order of its first appearance.
\<close>

fun first_seen :: "'a list \<Rightarrow> 'a list" where
  "first_seen [] = []"
| "first_seen (x # xs) = x # filter (\<lambda>y. y \<noteq> x) (first_seen xs)"

text \<open>
  A complete row for examples: clicks, impressions, orders, revenue, commission paid,
  partner name, vertical, campaign name and landing-page variant are given, the other
  cells are fixed.
\<close>

definition mk_row :: "real \<Rightarrow> real \<Rightarrow> real \<Rightarrow> real \<Rightarrow> real \<Rightarrow> string \<Rightarrow> string \<Rightarrow> string \<Rightarrow> string \<Rightarrow> row" where
  "mk_row c i ord rv cm p v cn lp =
     \<lparr> date = Some ''2024-01-01'', campaign_id = Some 1, device_type = Some ''mobile'',
       channel = Some ''email'', clicks = Some c, impressions = Some i, orders = Some ord,
       revenue = Some rv, commission_paid = Some cm, partner_name = Some p,
       vertical = Some v, campaign_name = Some cn, landing_page_variant = Some lp \<rparr>"

section \<open>Example record sets\<close>

text \<open>Two partners, the later one first in the alphabet.\<close>

definition df_order :: "row list" where
  "df_order = [mk_row 5 100 1 10 1 ''B'' ''Tech'' ''c2'' ''A'', mk_row 5 100 1 10 1 ''A'' ''Tech'' ''c1'' ''A'']"

text \<open>One row whose partner name is missing.\<close>

definition df_nokey :: "row list" where
  "df_nokey = [(mk_row 5 100 1 10 1 ''P'' ''Tech'' ''c1'' ''A'')\<lparr>partner_name := None\<rparr>]"

text \<open>Three complete rows in two partner groups.\<close>

definition df_two :: "row list" where
  "df_two = [mk_row 5 100 1 10 1 ''B'' ''Tech'' ''c2'' ''A'', mk_row 7 50 2 30 3 ''A'' ''Tech'' ''c1'' ''A'',
             mk_row 1 10 0 0 0 ''B'' ''Tech'' ''c2'' ''B'']"

text \<open>One partner with impressions, an order and revenue, but no click.\<close>

definition df_inf :: "row list" where
  "df_inf = [mk_row 0 100 1 10 1 ''P'' ''Tech'' ''c1'' ''A'']"

text \<open>One row with more clicks than impressions.\<close>

definition df_ctr :: "row list" where
  "df_ctr = [mk_row 20 10 1 10 1 ''P'' ''Tech'' ''c1'' ''A'']"



section \<open>The grouped frames, column by column\<close>

text \<open>
  Unfolding the column assignments and the final \<open>fillna(0)\<close> gives each returned
  frame as an explicit list of columns over the sorted group keys.
\<close>

lemma gpp_explicit:
  "get_partner_performance df =
     (let ks = group_keys partner_key df;
          s = (\<lambda>f k. Fin (col_sum f (group_rows partner_key df k)))
      in [(''partner_name'', StrCol (map fst ks)),
          (''vertical'', StrCol (map snd ks)),
          (''impressions'', NumCol (map (s impressions) ks)),
          (''clicks'', NumCol (map (s clicks) ks)),
          (''orders'', NumCol (map (s orders) ks)),
          (''revenue'', NumCol (map (s revenue) ks)),
          (''commission_paid'', NumCol (map (s commission_paid) ks)),
          (''CTR'', NumCol (map (\<lambda>k. fillna0 (fdiv (s clicks k) (s impressions k))) ks)),
          (''Conversion_Rate'', NumCol (map (\<lambda>k. fillna0 (fdiv (s orders k) (s clicks k))) ks)),
          (''EPC'', NumCol (map (\<lambda>k. fillna0 (fdiv (s revenue k) (s clicks k))) ks)),
          (''AOV'', NumCol (map (\<lambda>k. fillna0 (fdiv (s revenue k) (s orders k))) ks)),
          (''ROI'', NumCol (map (\<lambda>k. fillna0 (fdiv (fsub (s revenue k) (s commission_paid k)) (s commission_paid k))) ks))])"
  by (simp add: get_partner_performance_def groupby_agg_def Let_def num_col_def div_cols_def
      sub_cols_def fillna_def map2_map_map o_def del: fdiv.simps fsub.simps)

lemma gcp_explicit:
  "get_campaign_performance df =
     (let ks = group_keys campaign_key df;
          s = (\<lambda>f k. Fin (col_sum f (group_rows campaign_key df k)))
      in [(''campaign_name'', StrCol (map fst ks)),
          (''landing_page_variant'', StrCol (map snd ks)),
          (''impressions'', NumCol (map (s impressions) ks)),
          (''clicks'', NumCol (map (s clicks) ks)),
          (''orders'', NumCol (map (s orders) ks)),
          (''revenue'', NumCol (map (s revenue) ks)),
          (''commission_paid'', NumCol (map (s commission_paid) ks)),
          (''CTR'', NumCol (map (\<lambda>k. fillna0 (fdiv (s clicks k) (s impressions k))) ks)),
          (''Conversion_Rate'', NumCol (map (\<lambda>k. fillna0 (fdiv (s orders k) (s clicks k))) ks)),
          (''EPC'', NumCol (map (\<lambda>k. fillna0 (fdiv (s revenue k) (s clicks k))) ks)),
          (''ROI'', NumCol (map (\<lambda>k. fillna0 (fdiv (fsub (s revenue k) (s commission_paid k)) (s commission_paid k))) ks))])"
  by (simp add: get_campaign_performance_def groupby_agg_def Let_def num_col_def div_cols_def
      sub_cols_def fillna_def map2_map_map o_def del: fdiv.simps fsub.simps)

lemma num_col_gpp:
  "num_col (get_partner_performance df) ''impressions'' = map (\<lambda>k. Fin (col_sum impressions (group_rows partner_key df k))) (group_keys partner_key df)"
  "num_col (get_partner_performance df) ''clicks'' = map (\<lambda>k. Fin (col_sum clicks (group_rows partner_key df k))) (group_keys partner_key df)"
  "num_col (get_partner_performance df) ''orders'' = map (\<lambda>k. Fin (col_sum orders (group_rows partner_key df k))) (group_keys partner_key df)"
  "num_col (get_partner_performance df) ''revenue'' = map (\<lambda>k. Fin (col_sum revenue (group_rows partner_key df k))) (group_keys partner_key df)"
  "num_col (get_partner_performance df) ''commission_paid'' = map (\<lambda>k. Fin (col_sum commission_paid (group_rows partner_key df k))) (group_keys partner_key df)"
  by (simp_all add: gpp_explicit num_col_def Let_def)




lemma key_pairs_partner:
  "key_pairs ''partner_name'' ''vertical'' (get_partner_performance df) = group_keys partner_key df"
  by (simp add: gpp_explicit key_pairs_def str_col_def Let_def zip_map_fst_snd)

lemma key_pairs_campaign:
  "key_pairs ''campaign_name'' ''landing_page_variant'' (get_campaign_performance df) = group_keys campaign_key df"
  by (simp add: gcp_explicit key_pairs_def str_col_def Let_def zip_map_fst_snd)

lemma set_map_filter: "set (List.map_filter f xs) = {y. \<exists>x\<in>set xs. f x = Some y}"
  by (induction xs) (auto simp: map_filter_simps split: option.splits)

lemma group_keys_props:
  "sorted (group_keys key df) \<and> distinct (group_keys key df) \<and>
   set (group_keys key df) = {k. \<exists>r\<in>set df. key r = Some k}"
  by (simp add: group_keys_def set_map_filter)

lemma fillna_no_nan:
  assumes "(n, NumCol xs) \<in> set (fillna fr)"
  shows "NaN \<notin> set xs"
proof -
  have a: "fillna0 x \<noteq> NaN" for x
    by (cases x) simp_all
  from assms obtain c where c: "fillna_col c = NumCol xs"
    by (auto simp: fillna_def)
  then obtain ys where "xs = map fillna0 ys"
    by (cases c) auto
  with a show ?thesis
    by (auto simp: image_iff) (metis a)
qed

section \<open>Sums over groups\<close>

lemma fsum_Fin: "fsum (map (\<lambda>k. Fin (g k)) ks) = Fin (sum_list (map g ks))"
  by (induction ks) (simp_all add: fsum_def)

lemma col_sum_Cons: "col_sum f (r # df) = (case f r of None \<Rightarrow> 0 | Some v \<Rightarrow> v) + col_sum f df"
  by (simp add: col_sum_def map_filter_simps split: option.splits)

lemma col_sum_Nil: "col_sum f [] = 0"
  by (simp add: col_sum_def map_filter_simps)

lemma sum_list_delta:
  assumes "distinct ks" and "k0 \<in> set ks"
  shows "sum_list (map (\<lambda>k. if k0 = k then (v::real) else 0) ks) = v"
proof -
  have "sum_list (map (\<lambda>k. if k0 = k then v else 0) ks) = (\<Sum>k\<in>set ks. if k0 = k then v else 0)"
    using assms(1) by (rule sum_list_distinct_conv_sum_set)
  also have "\<dots> = v"
    using assms(2) by simp
  finally show ?thesis .
qed

lemma sum_over_groups:
  assumes "distinct ks" and "\<forall>r\<in>set df. \<exists>k\<in>set ks. key r = Some k"
  shows "sum_list (map (\<lambda>k. col_sum f (filter (\<lambda>r. key r = Some k) df)) ks) = col_sum f df"
  using assms(2)
proof (induction df)
  case Nil
  show ?case by (simp add: col_sum_Nil)
next
  case (Cons r df)
  then obtain k0 where k0: "k0 \<in> set ks" "key r = Some k0" by auto
  let ?v = "case f r of None \<Rightarrow> 0 | Some v \<Rightarrow> v"
  have "sum_list (map (\<lambda>k. col_sum f (filter (\<lambda>r. key r = Some k) (r # df))) ks)
      = sum_list (map (\<lambda>k. (if k0 = k then ?v else 0) + col_sum f (filter (\<lambda>r. key r = Some k) df)) ks)"
    using k0(2) by (intro arg_cong [where f = sum_list] map_cong) (auto simp: col_sum_Cons)
  also have "\<dots> = sum_list (map (\<lambda>k. if k0 = k then ?v else 0) ks)
                  + sum_list (map (\<lambda>k. col_sum f (filter (\<lambda>r. key r = Some k) df)) ks)"
    by (rule sum_list_addf)
  also have "\<dots> = ?v + col_sum f df"
    using Cons sum_list_delta [OF assms(1) k0(1)] by simp
  finally show ?case by (simp add: col_sum_Cons)
qed

lemma group_totals:
  assumes "\<forall>r\<in>set df. key r \<noteq> None"
  shows "sum_list (map (\<lambda>k. col_sum f (group_rows key df k)) (group_keys key df)) = col_sum f df"
proof -
  have "\<forall>r\<in>set df. \<exists>k\<in>set (group_keys key df). key r = Some k"
  proof
    fix r assume r: "r \<in> set df"
    with assms obtain k where "key r = Some k" by auto
    with r show "\<exists>k\<in>set (group_keys key df). key r = Some k"
      by (auto simp: group_keys_props)
  qed
  with sum_over_groups [of "group_keys key df" df key f] show ?thesis
    by (simp add: group_keys_props group_rows_def)
qed

section \<open>The outlier test without the square root\<close>

text \<open>
  \<open>|x - mean| / std > 3\<close> holds exactly when \<open>(x - mean)\<^sup>2 > 9 * variance\<close>; this
  form evaluates on rational inputs.
\<close>

lemma outliers_code [code]:
  "outliers xs =
     (if length xs < 2 then map (\<lambda>x. False) xs
      else map (\<lambda>x. 9 * (sq_dev xs / real (length xs - 1)) < (x - mean xs)\<^sup>2) xs)"
proof (cases "length xs < 2")
  case True
  then show ?thesis by (simp add: outliers_def z_scores_def std_def o_def)
next
  case False
  define v where "v = sq_dev xs / real (length xs - 1)"
  have v0: "0 \<le> v"
    unfolding v_def sq_dev_def by (intro divide_nonneg_nonneg sum_list_nonneg) auto
  have key: "fgt (fabs (fdiv (Fin a) (Fin (sqrt v)))) 3 \<longleftrightarrow> 9 * v < a\<^sup>2" for a
  proof (cases "v = 0")
    case True
    then show ?thesis by simp
  next
    case False
    with v0 have s: "0 < sqrt v" by simp
    have "3 < \<bar>a\<bar> / sqrt v \<longleftrightarrow> 3 * sqrt v < \<bar>a\<bar>"
      using s by (simp add: pos_less_divide_eq)
    also have "3 * sqrt v = sqrt (9 * v)"
      by (simp add: real_sqrt_mult)
    also have "\<bar>a\<bar> = sqrt (a\<^sup>2)"
      by simp
    also have "sqrt (9 * v) < sqrt (a\<^sup>2) \<longleftrightarrow> 9 * v < a\<^sup>2"
      by (rule real_sqrt_less_iff)
    finally show ?thesis using False s by simp
  qed
  show ?thesis
    using False key by (simp add: outliers_def z_scores_def std_def o_def v_def)
qed

section \<open>The issue list\<close>

lemma run_checks_alt:
  "run_checks df =
     (let c1 = (if filter (\<lambda>r. gt_cell (clicks r) (impressions r)) df \<noteq> []
                then [msg_invalid_ctr (length (filter (\<lambda>r. gt_cell (clicks r) (impressions r)) df))] else []);
          c2 = (if filter (\<lambda>r. lt0_cell (revenue r) \<or> lt0_cell (commission_paid r)) df \<noteq> []
                then [msg_neg_val (length (filter (\<lambda>r. lt0_cell (revenue r) \<or> lt0_cell (commission_paid r)) df))] else []);
          c3 = (if null_count df > 0 then [msg_nulls (null_count df)] else []);
          c4 = (if rev_data df \<noteq> [] \<and> count_true (outliers (rev_data df)) > 0
                then [msg_outliers (count_true (outliers (rev_data df)))] else [])
      in if c1 @ c2 @ c3 @ c4 = [] then [msg_passed] else c1 @ c2 @ c3 @ c4)"
  by (simp add: run_checks_def Let_def)

lemma msg_distinct:
  "msg_invalid_ctr n \<noteq> msg_passed" "msg_neg_val n \<noteq> msg_passed" "msg_nulls n \<noteq> msg_passed"
  "msg_outliers n \<noteq> msg_passed"
  "msg_outliers n \<noteq> msg_invalid_ctr m" "msg_outliers n \<noteq> msg_neg_val m" "msg_outliers n \<noteq> msg_nulls m"
  by (simp_all add: msg_invalid_ctr_def msg_neg_val_def msg_nulls_def msg_outliers_def msg_passed_def)

section \<open>Properties of the specification\<close>

text \<open>
  C1. The specification asks that every non-finite cell of the frame returned by
  \<open>get_partner_performance\<close> be replaced by 0. The code calls \<open>fillna(0)\<close>, which
  replaces NaN only: for one partner with clicks = 0, impressions = 100, orders = 1 and
  revenue = 10 the returned CTR is 0, but Conversion_Rate and EPC are plus infinity.
\<close>

theorem partner_performance_keeps_infinities:
  "num_col (get_partner_performance df_inf) ''clicks'' = [Fin 0] \<and>
   num_col (get_partner_performance df_inf) ''CTR'' = [Fin 0] \<and>
   num_col (get_partner_performance df_inf) ''Conversion_Rate'' = [PInf] \<and>
   num_col (get_partner_performance df_inf) ''EPC'' = [PInf] \<and>
   \<not> list_all is_finite (num_col (get_partner_performance df_inf) ''EPC'')"
  by (simp add: gpp_explicit num_col_def Let_def group_keys_def group_rows_def df_inf_def mk_row_def
      partner_key_def key2_def map_filter_simps col_sum_def)

text \<open>
  C2 (as amended). The rows of \<open>get_partner_performance\<close> come in strictly ascending
  order of the (partner_name, vertical) pairs, one row for each pair that occurs in a
  record with both cells present; the rows of \<open>get_campaign_performance\<close> likewise
  for (campaign_name, landing_page_variant). Strings are compared character by
  character, pairs lexicographically. The order of first appearance is not kept.
\<close>

theorem grouped_rows_sorted_by_key:
  "(let ks = key_pairs ''partner_name'' ''vertical'' (get_partner_performance df)
    in sorted ks \<and> distinct ks \<and> set ks = {k. \<exists>r\<in>set df. partner_key r = Some k}) \<and>
   (let ks = key_pairs ''campaign_name'' ''landing_page_variant'' (get_campaign_performance df)
    in sorted ks \<and> distinct ks \<and> set ks = {k. \<exists>r\<in>set df. campaign_key r = Some k})"
  by (simp add: key_pairs_partner key_pairs_campaign group_keys_props Let_def)

text \<open>
  Partner B appears before partner A in the input; the returned rows are A, then B,
  while the order of first appearance is B, then A.
\<close>

theorem grouped_rows_not_first_seen:
  "key_pairs ''partner_name'' ''vertical'' (get_partner_performance df_order) = [(''A'', ''Tech''), (''B'', ''Tech'')] \<and>
   first_seen (List.map_filter partner_key df_order) = [(''B'', ''Tech''), (''A'', ''Tech'')] \<and>
   key_pairs ''partner_name'' ''vertical'' (get_partner_performance df_order) \<noteq> first_seen (List.map_filter partner_key df_order)"
  by (simp add: key_pairs_partner group_keys_def df_order_def mk_row_def partner_key_def key2_def List.map_filter_def
     less_eq_char_def less_char_def)

text \<open>
  C3. \<open>safe_div x d\<close> is \<open>x / d\<close> for a positive denominator and 0 for a zero or
  negative one; so \<open>safe_div x 0 = 0\<close>, \<open>safe_div x (-1) = 0\<close> and
  \<open>safe_div 10 4 = 2.5\<close>. The function is total: it never raises.
\<close>

theorem safe_div_spec:
  "(d > 0 \<longrightarrow> safe_div x d = x / d) \<and> (d \<le> 0 \<longrightarrow> safe_div x d = 0) \<and>
   safe_div x 0 = 0 \<and> safe_div x (- 1) = 0 \<and> safe_div 10 4 = 5 / 2"
  by (simp add: safe_div_def)

theorem safe_div_spec_witness:
  "safe_div 7 2 = 7 / 2 \<and> safe_div 7 (- 3) = 0 \<and> safe_div 7 0 = 0 \<and> safe_div 10 4 = 5 / 2"
  using safe_div_spec [of 2 7] safe_div_spec [of "- 3" 7] by simp

text \<open>
  C4 (as amended). When every record has both its partner name and its vertical, then
  for each of the columns impressions, clicks, orders, revenue and commission_paid
  whose cells add exactly (integers whose absolute values total less than \<open>2^53\<close>),
  the total of that column of the frame returned by \<open>get_partner_performance\<close>
  equals the corresponding total returned by \<open>calculate_kpis\<close> on the same records.
  For a column whose additions round, the two totals add the same cells in different
  orders and nothing is stated.
\<close>

theorem group_sums_equal_totals:
  assumes "\<forall>r\<in>set df. partner_name r \<noteq> None \<and> vertical r \<noteq> None"
  shows "(exact_col impressions df \<longrightarrow>
            fsum (num_col (get_partner_performance df) ''impressions'') = Fin (sum_impressions (snd (calculate_kpis df)))) \<and>
         (exact_col clicks df \<longrightarrow>
            fsum (num_col (get_partner_performance df) ''clicks'') = Fin (sum_clicks (snd (calculate_kpis df)))) \<and>
         (exact_col orders df \<longrightarrow>
            fsum (num_col (get_partner_performance df) ''orders'') = Fin (sum_orders (snd (calculate_kpis df)))) \<and>
         (exact_col revenue df \<longrightarrow>
            fsum (num_col (get_partner_performance df) ''revenue'') = Fin (sum_revenue (snd (calculate_kpis df)))) \<and>
         (exact_col commission_paid df \<longrightarrow>
            fsum (num_col (get_partner_performance df) ''commission_paid'') = Fin (sum_commission_paid (snd (calculate_kpis df))))"
proof -
  have "\<forall>r\<in>set df. partner_key r \<noteq> None"
    using assms by (auto simp: partner_key_def key2_def split: option.splits)
  then have "sum_list (map (\<lambda>k. col_sum f (group_rows partner_key df k)) (group_keys partner_key df)) = col_sum f df" for f
    by (rule group_totals)
  then show ?thesis
    by (simp add: num_col_gpp fsum_Fin calculate_kpis_def agg_sum_def Let_def)
qed

theorem group_sums_equal_totals_witness:
  "map partner_name df_two = [Some ''B'', Some ''A'', Some ''B''] \<and>
   map vertical df_two = [Some ''Tech'', Some ''Tech'', Some ''Tech''] \<and>
   exact_col impressions df_two \<and> exact_col clicks df_two \<and> exact_col orders df_two \<and>
   exact_col revenue df_two \<and> exact_col commission_paid df_two \<and>
   fsum (num_col (get_partner_performance df_two) ''impressions'') = Fin 160 \<and>
   sum_impressions (snd (calculate_kpis df_two)) = 160 \<and>
   fsum (num_col (get_partner_performance df_two) ''clicks'') = Fin 13 \<and>
   fsum (num_col (get_partner_performance df_two) ''orders'') = Fin 3 \<and>
   fsum (num_col (get_partner_performance df_two) ''revenue'') = Fin 40 \<and>
   sum_revenue (snd (calculate_kpis df_two)) = 40 \<and>
   fsum (num_col (get_partner_performance df_two) ''commission_paid'') = Fin 4"
proof -
  have h: "\<forall>r\<in>set df_two. partner_name r \<noteq> None \<and> vertical r \<noteq> None"
    by (simp add: df_two_def mk_row_def)
  have e: "exact_col impressions df_two" "exact_col clicks df_two" "exact_col orders df_two"
          "exact_col revenue df_two" "exact_col commission_paid df_two"
    by (simp_all add: exact_col_def exact_cells_def df_two_def mk_row_def map_filter_simps)
  have t: "calculate_kpis df_two =
             (\<lparr> CTR = 13 / 160, Conversion_Rate = 3 / 13, EPC = 40 / 13, AOV = 40 / 3, ROI = 9 \<rparr>,
              \<lparr> sum_impressions = 160, sum_clicks = 13, sum_orders = 3, sum_revenue = 40,
                sum_commission_paid = 4 \<rparr>)"
    by (simp add: calculate_kpis_def agg_sum_def Let_def col_sum_def df_two_def mk_row_def
        map_filter_simps safe_div_def)
  have k: "map partner_name df_two = [Some ''B'', Some ''A'', Some ''B'']"
          "map vertical df_two = [Some ''Tech'', Some ''Tech'', Some ''Tech'']"
    by (simp_all add: df_two_def mk_row_def)
  from group_sums_equal_totals [OF h] e t k show ?thesis by simp
qed

text \<open>
  A record whose partner name is missing belongs to no group: the grouped frame is
  empty and its impressions total 0, while \<open>calculate_kpis\<close> counts 100.
\<close>

theorem group_sums_drop_missing_keys:
  "fsum (num_col (get_partner_performance df_nokey) ''impressions'') = Fin 0 \<and>
   sum_impressions (snd (calculate_kpis df_nokey)) = 100 \<and>
   fsum (num_col (get_partner_performance df_nokey) ''impressions'') \<noteq> Fin (sum_impressions (snd (calculate_kpis df_nokey)))"
  by (simp add: num_col_gpp fsum_Fin group_keys_def df_nokey_def mk_row_def partner_key_def key2_def
      map_filter_simps calculate_kpis_def agg_sum_def Let_def col_sum_def fsum_def)

text \<open>
  C5. On the empty record set \<open>calculate_kpis\<close> returns the five ratios all 0 and
  the five totals all 0.
\<close>

theorem calculate_kpis_empty:
  "calculate_kpis [] =
     (\<lparr> CTR = 0, Conversion_Rate = 0, EPC = 0, AOV = 0, ROI = 0 \<rparr>,
      \<lparr> sum_impressions = 0, sum_clicks = 0, sum_orders = 0, sum_revenue = 0,
        sum_commission_paid = 0 \<rparr>)"
  by (simp add: calculate_kpis_def agg_sum_def col_sum_def List.map_filter_def safe_div_def)

text \<open>
  C7. On the empty record set \<open>run_checks\<close> returns exactly the PASSED message.
\<close>

theorem run_checks_empty:
  "run_checks [] = [''PASSED: All data quality checks passed.'']"
  by (simp add: run_checks_def null_count_def rev_data_def List.map_filter_def msg_passed_def)

text \<open>
  C8. When some record has clicks > impressions, the number n of such records is
  positive, the first issue returned by \<open>run_checks\<close> is the CRITICAL message
  stating n, and the PASSED message is not in the list.
\<close>

theorem invalid_ctr_reported:
  assumes "\<exists>r\<in>set df. gt_cell (clicks r) (impressions r)"
  shows "(let n = length (filter (\<lambda>r. gt_cell (clicks r) (impressions r)) df)
          in 0 < n \<and>
             hd (run_checks df) = ''CRITICAL: Found '' @ str_nat n @ '' rows where Clicks > Impressions.'' \<and>
             ''CRITICAL: Found '' @ str_nat n @ '' rows where Clicks > Impressions.'' \<in> set (run_checks df)) \<and>
         ''PASSED: All data quality checks passed.'' \<notin> set (run_checks df)"
proof -
  from assms have ne: "filter (\<lambda>r. gt_cell (clicks r) (impressions r)) df \<noteq> []"
    by (auto simp: filter_empty_conv)
  then have pos: "0 < length (filter (\<lambda>r. gt_cell (clicks r) (impressions r)) df)"
    by simp
  have hd: "hd (run_checks df) = msg_invalid_ctr (length (filter (\<lambda>r. gt_cell (clicks r) (impressions r)) df))"
    using ne by (simp add: run_checks_alt Let_def)
  have mem: "msg_invalid_ctr (length (filter (\<lambda>r. gt_cell (clicks r) (impressions r)) df)) \<in> set (run_checks df)"
    using ne by (simp add: run_checks_alt Let_def)
  have np: "msg_passed \<notin> set (run_checks df)"
    using ne by (simp add: run_checks_alt Let_def msg_distinct [THEN not_sym])
  from pos hd mem np show ?thesis
    by (simp add: Let_def msg_invalid_ctr_def msg_passed_def)
qed

theorem invalid_ctr_reported_witness:
  "length (filter (\<lambda>r. gt_cell (clicks r) (impressions r)) df_ctr) = 1 \<and>
   ''CRITICAL: Found 1 rows where Clicks > Impressions.'' \<in> set (run_checks df_ctr) \<and>
   ''PASSED: All data quality checks passed.'' \<notin> set (run_checks df_ctr)"
proof -
  have h: "\<exists>r\<in>set df_ctr. gt_cell (clicks r) (impressions r)"
    by (simp add: df_ctr_def mk_row_def)
  have n: "length (filter (\<lambda>r. gt_cell (clicks r) (impressions r)) df_ctr) = 1"
    by (simp add: df_ctr_def mk_row_def)
  have s: "str_nat 1 = ''1''"
    by (simp add: str_nat.simps digit_char_def)
  from invalid_ctr_reported [OF h] n s show ?thesis by (simp add: Let_def)
qed

text \<open>
  C9. The frame returned by \<open>get_campaign_performance\<close> has exactly the two key
  columns, the five summed metrics and the ratios CTR, Conversion_Rate, EPC and ROI;
  it has no AOV column, which the partner frame has.
\<close>

theorem campaign_performance_columns:
  "map fst (get_campaign_performance df) =
     [''campaign_name'', ''landing_page_variant'', ''impressions'', ''clicks'', ''orders'',
      ''revenue'', ''commission_paid'', ''CTR'', ''Conversion_Rate'', ''EPC'', ''ROI''] \<and>
   ''AOV'' \<notin> set (map fst (get_campaign_performance df)) \<and>
   ''AOV'' \<in> set (map fst (get_partner_performance df))"
  by (simp add: gcp_explicit gpp_explicit Let_def)




end
